theory Spec2Isabelle
  imports Main
begin

section \<open>Errors and time\<close>

text \<open>
  Go's \<open>error\<close> values that occur in the modelled packages. A nil \<open>error\<close> is
  \<open>None\<close> of type \<open>error option\<close>.
  \<^item> \<open>ErrorString s\<close> is \<open>errors.New(s)\<close> (also \<open>Errorf\<close> with no error argument);
  \<^item> \<open>Errorf fmt e\<close> is \<open>fmt.Errorf(fmt, e)\<close> or \<open>xerrors.Errorf(fmt, e)\<close>;
  \<^item> \<open>MultiError es\<close> is a \<open>*multierror.Error\<close> with \<open>Errors = es\<close>;
  \<^item> \<open>HTTPStatusError c\<close> is \<open>*preverify.HTTPStatusError\<close> with \<open>StatusCode = c\<close>;
  \<^item> \<open>ErrURLMismatch\<close> is \<open>fetch.ErrURLMismatch\<close>;
  \<^item> \<open>WebpackagerError u e\<close> is \<open>*webpackager.Error\<close> with the URL (as a string) and the cause.
\<close>

datatype error =
    ErrorString string
  | Errorf string error
  | MultiError "error list"
  | HTTPStatusError int
  | ErrURLMismatch
  | WebpackagerError string error

text \<open>
  \<open>time.Duration\<close> is a count of nanoseconds (an int64 in Go; the modelled code only
  compares durations, so the unbounded \<open>int\<close> covers every int64 value).
  \<open>time.Time\<close> is modelled as nanoseconds since the Unix epoch.
\<close>

type_synonym Duration = int
type_synonym Time = int

definition Second :: Duration where
  "Second = 1000000000"

definition Hour :: Duration where
  "Hour = 3600 * Second"

definition Unix :: "Time \<Rightarrow> int" where
  \<comment> \<open>\<open>t.Unix()\<close>: whole seconds since the epoch, rounded down.\<close>
  "Unix t = t div Second"

definition time_Unix :: "int \<Rightarrow> int \<Rightarrow> Time" where
  \<comment> \<open>\<open>time.Unix(sec, nsec)\<close>\<close>
  "time_Unix sec nsec = sec * Second + nsec"

section \<open>go-multierror\<close>

text \<open>
  \<open>multierror.Append(errs, err)\<close> on the list of errors held by \<open>errs\<close>: a nil
  \<open>err\<close> is skipped, a \<open>*multierror.Error\<close> is flattened, anything else is appended.
\<close>

fun multierror_Append :: "error list \<Rightarrow> error option \<Rightarrow> error list" where
  "multierror_Append errs None = errs"
| "multierror_Append errs (Some (MultiError es)) = errs @ es"
| "multierror_Append errs (Some e) = errs @ [e]"

definition ErrorOrNil :: "error list \<Rightarrow> error option" where
  \<comment> \<open>\<open>errs.ErrorOrNil()\<close> for a non-nil \<open>errs\<close>\<close>
  "ErrorOrNil errs = (if errs = [] then None else Some (MultiError errs))"

section \<open>cmd/webpackager/flag\_packager.go\<close>

text \<open>The command-line flags read by the functions modelled below, with their defaults.\<close>

record Flags =
  flagExpiry :: string
  flagJSExpiry :: string
  flagInsecureJSExpiry :: bool
  flagSXGExt :: string
  flagSXGDir :: string
  flagValidityExt :: string
  flagValidityDir :: string

definition defaultFlags :: Flags where
  "defaultFlags = \<lparr> flagExpiry = ''72h'', flagJSExpiry = ''12h'',
     flagInsecureJSExpiry = False, flagSXGExt = ''.sxg'', flagSXGDir = ''sxg/'',
     flagValidityExt = ''.validity'', flagValidityDir = [] \<rparr>"

definition maxExpiry :: Duration where
  "maxExpiry = 7 * (24 * Hour)"

definition maxGoodJSExpiry :: Duration where
  "maxGoodJSExpiry = 1 * (24 * Hour)"

text \<open>
  \<open>parseDuration\<close>. The standard library's \<open>time.ParseDuration\<close> is the parameter
  \<open>ParseDuration\<close>; like the Go function it returns a pair of a duration and an error.
\<close>

type_synonym DurationParser = "string \<Rightarrow> Duration \<times> error option"

definition parseDuration :: "DurationParser \<Rightarrow> string \<Rightarrow> Duration \<Rightarrow> Duration \<times> error option" where
  "parseDuration ParseDuration s maxd =
     (case ParseDuration s of
        (v, Some err) \<Rightarrow> (0, Some err)
      | (v, None) \<Rightarrow>
          if v \<le> 0 then (0, Some (ErrorString ''duration must be positive''))
          else if v > maxd then (0, Some (ErrorString ''duration too large''))
          else (v, None))"

text \<open>
  A valid-period rule as \<open>getValidPeriodRuleFromFlags\<close> builds it:
  \<open>vprule.FixedLifetime(d)\<close> and \<open>vprule.PerContentType(rules, defaultRule)\<close>, the Go map
  literal as an association list.
\<close>

datatype Rule =
    FixedLifetime Duration
  | PerContentType "(string \<times> Rule) list" Rule

definition getValidPeriodRuleFromFlags :: "DurationParser \<Rightarrow> Flags \<Rightarrow> error + Rule" where
  "getValidPeriodRuleFromFlags ParseDuration f =
     (let errs = [];
          (expiry, err) = parseDuration ParseDuration (flagExpiry f) maxExpiry;
          errs = (case err of
                    Some e \<Rightarrow> multierror_Append errs (Some (Errorf ''invalid --expiry: %v'' e))
                  | None \<Rightarrow> errs);
          maxJSExpiry = (if flagInsecureJSExpiry f then maxExpiry else maxGoodJSExpiry);
          (jsExpiry, err) = parseDuration ParseDuration (flagJSExpiry f) maxJSExpiry;
          errs = (case err of
                    Some e \<Rightarrow> multierror_Append errs (Some (Errorf ''invalid --js_expiry: %v'' e))
                  | None \<Rightarrow> errs)
      in case ErrorOrNil errs of
           Some e \<Rightarrow> Inl e
         | None \<Rightarrow>
             Inr (PerContentType
                    [(''application/javascript'', FixedLifetime jsExpiry),
                     (''text/javascript'', FixedLifetime jsExpiry),
                     (''application/x-javascript'', FixedLifetime jsExpiry)]
                    (FixedLifetime expiry)))"

text \<open>
  \<open>getResourceCacheFromFlags\<close>. The result is the \<open>filewrite.Config\<close> handed to
  \<open>filewrite.NewFileWriteCache\<close>: the base cache is always the new on-memory cache, so
  only the exchange mapping is kept, \<open>None\<close> when \<open>--sxg_dir\<close> is empty and otherwise
  \<open>AddBaseDir(AppendExt(UsePhysicalURLPath(), ext), dir)\<close> as the pair \<open>(ext, dir)\<close>.
\<close>

record FileWriteConfig =
  ExchangeMapping :: "(string \<times> string) option"

definition getResourceCacheFromFlags :: "Flags \<Rightarrow> error + FileWriteConfig" where
  "getResourceCacheFromFlags f =
     (let config = \<lparr> ExchangeMapping = None \<rparr>;
          config = (if flagSXGDir f \<noteq> []
                    then config \<lparr> ExchangeMapping := Some (flagSXGExt f, flagSXGDir f) \<rparr>
                    else config)
      in if flagValidityDir f \<noteq> []
         then Inl (ErrorString ''--validity_dir is not implemented yet'')
         else Inr config)"

section \<open>Shared data: URLs, headers, responses, valid periods\<close>

text \<open>
  \<open>net/url.URL\<close> with the fields the modelled code reads or writes. \<open>User\<close> is
  \<open>None\<close> for a nil \<open>*Userinfo\<close>, otherwise the user name and the optional password.
\<close>

record URL =
  Scheme :: string
  Opaque :: string
  User :: "(string \<times> string option) option"
  Host :: string
  Path :: string
  RawPath :: string
  ForceQuery :: bool
  RawQuery :: string
  Fragment :: string

text \<open>
  \<open>http.Header\<close> is a \<open>map[string][]string\<close>, here an association list read with
  \<open>map_of\<close>. \<open>Header_Get\<close> is \<open>h.Get(key)\<close> for a key in canonical form: the first
  value stored under the key, or the empty string.
\<close>

type_synonym Header = "(string \<times> string list) list"

definition Header_Get :: "Header \<Rightarrow> string \<Rightarrow> string" where
  "Header_Get h key = (case map_of h key of Some (v # vs) \<Rightarrow> v | _ \<Rightarrow> [])"

text \<open>
  \<open>exchange.Response\<close>: the request URL, the status code, the response header and the
  materialised payload.
\<close>

record Response =
  RequestURL :: URL
  StatusCode :: int
  RespHeader :: Header
  Payload :: string

text \<open>
  Modelled from the spec: \<open>exchange.ValidPeriod\<close> and
  \<open>exchange.NewValidPeriodWithLifetime\<close> are not among the sources. Section 3:
  a pair \<open>(date, expires)\<close>, constructed from \<open>(date, lifetime)\<close>.
\<close>

record ValidPeriod =
  date :: Time
  expires :: Time

definition NewValidPeriodWithLifetime :: "Time \<Rightarrow> Duration \<Rightarrow> ValidPeriod" where
  "NewValidPeriodWithLifetime d lifetime = \<lparr> date = d, expires = d + lifetime \<rparr>"

section \<open>exchange/vprule\<close>

text \<open>
  Modelled from the spec: the \<open>Get\<close> method of the rules built by
  \<open>vprule.FixedLifetime\<close> and \<open>vprule.PerContentType\<close> is not among the sources.
  Section 4.1: the rule dispatches on \<open>Content-Type\<close>; responses whose media type is a
  JavaScript type use the JS lifetime, all others the default lifetime, and HTML containing
  inline scripts is treated as JS for this purpose.

  \<open>MediaType\<close> extracts the media type from a \<open>Content-Type\<close> header value (the
  standard library's \<open>mime.ParseMediaType\<close>) and \<open>HasInlineScript\<close> tells whether
  an HTML payload contains an inline script (the HTML parser); both are parameters.
  An HTML response with inline scripts is dispatched as \<open>application/javascript\<close>.
\<close>

definition dispatchType :: "(string \<Rightarrow> string) \<Rightarrow> (Response \<Rightarrow> bool) \<Rightarrow> Response \<Rightarrow> string" where
  "dispatchType MediaType HasInlineScript resp =
     (let ctype = MediaType (Header_Get (RespHeader resp) ''Content-Type'')
      in if ctype = ''text/html'' \<and> HasInlineScript resp
         then ''application/javascript'' else ctype)"

function Rule_Get :: "Rule \<Rightarrow> string \<Rightarrow> Time \<Rightarrow> ValidPeriod" where
  "Rule_Get (FixedLifetime d) ctype t = NewValidPeriodWithLifetime t d"
| "Rule_Get (PerContentType rules defaultRule) ctype t =
     (case map_of rules ctype of
        Some rule \<Rightarrow> Rule_Get rule ctype t
      | None \<Rightarrow> Rule_Get defaultRule ctype t)"
  by pat_completeness auto
termination
proof (relation "measure (\<lambda>(rule, ctype, t). size rule)", goal_cases)
  case 1
  show ?case by simp
next
  case (2 rules defaultRule ctype t)
  show ?case by simp
next
  case (3 rules defaultRule ctype t rule)
  from 3 have "(ctype, rule) \<in> set rules"
    by (rule map_of_SomeD)
  then have "size rule < size_list (size_prod (\<lambda>x. 0) size) rules"
    by (rule size_list_estimation) simp
  then show ?case by simp
qed

definition Get :: "(string \<Rightarrow> string) \<Rightarrow> (Response \<Rightarrow> bool) \<Rightarrow> Rule \<Rightarrow> Response \<Rightarrow> Time \<Rightarrow> ValidPeriod" where
  "Get MediaType HasInlineScript rule resp t =
     Rule_Get rule (dispatchType MediaType HasInlineScript resp) t"

definition isJavaScript :: "(string \<Rightarrow> string) \<Rightarrow> (Response \<Rightarrow> bool) \<Rightarrow> Response \<Rightarrow> bool" where
  \<comment> \<open>a resource typed as JavaScript, or HTML with inline scripts\<close>
  "isJavaScript MediaType HasInlineScript resp =
     (let ctype = MediaType (Header_Get (RespHeader resp) ''Content-Type'')
      in ctype \<in> {''application/javascript'', ''text/javascript'', ''application/x-javascript''}
         \<or> (ctype = ''text/html'' \<and> HasInlineScript resp))"

section \<open>processor/preverify and processor/htmlproc\<close>

text \<open>
  A processor's \<open>Process(resp)\<close> returns an error (or nil) and may change the response
  in place, so the model returns the error and the response after the call.

  Modelled from the spec: \<open>preverify.HTTPStatusCode\<close> is not among the sources (its tests
  are). Section 4.2: the status filter is configured with an allow-set of status codes and
  fails with \<open>HTTPStatus(code)\<close> when the response's status is not in the set.
\<close>

definition HTTPStatusCode :: "int list \<Rightarrow> Response \<Rightarrow> error option \<times> Response" where
  "HTTPStatusCode goodCodes resp =
     (if StatusCode resp \<in> set goodCodes then (None, resp)
      else (Some (HTTPStatusError (StatusCode resp)), resp))"

text \<open>
  Modelled from the spec: \<open>htmlproc.NewHTMLProcessor\<close> and its \<open>Process\<close> are not among
  the sources (their tests are). Section 4.2: the HTML processor parses the document once
  and runs a sequence of HTML tasks in their declared order, each receiving the shared
  parsed-document view; a task failure aborts the pipeline for the current resource.

  A task is a function on the state \<open>'w\<close> it can change (the response with its parsed
  document, and whatever the task closes over, as the \<open>called\<close> string of the tests); it
  returns its error and the new state. \<open>runTasks\<close> also returns the positions of the
  tasks it has run, in the order it ran them. \<open>NewHTMLResponse\<close>, the parser, is a
  parameter of the same shape.
\<close>

type_synonym 'w HTMLTask = "'w \<Rightarrow> error option \<times> 'w"

fun runTasks :: "nat \<Rightarrow> 'w HTMLTask list \<Rightarrow> 'w \<Rightarrow> error option \<times> 'w \<times> nat list" where
  "runTasks i [] w = (None, w, [])"
| "runTasks i (task # tasks) w =
     (case task w of
        (Some err, w') \<Rightarrow> (Some err, w', [i])
      | (None, w') \<Rightarrow>
          (case runTasks (Suc i) tasks w' of (r, w'', rn) \<Rightarrow> (r, w'', i # rn)))"

definition HTMLProcessor_Process ::
    "'w HTMLTask \<Rightarrow> 'w HTMLTask list \<Rightarrow> 'w \<Rightarrow> error option \<times> 'w \<times> nat list" where
  "HTMLProcessor_Process NewHTMLResponse TaskSet w =
     (case NewHTMLResponse w of
        (Some err, w') \<Rightarrow> (Some err, w', [])
      | (None, w') \<Rightarrow> runTasks 0 TaskSet w')"

text \<open>
  The tasks of \<open>TestHTMLProcessor_Success\<close> and \<open>TestHTMLProcessor_Error\<close>: each appends
  its name to the string \<open>called\<close>, which is the whole state here, and returns the given
  error.
\<close>

definition AsHTMLTask :: "string \<Rightarrow> error option \<Rightarrow> string HTMLTask" where
  "AsHTMLTask name err called = (err, called @ name)"

definition errDummy :: error where
  "errDummy = ErrorString ''errDummy''"

section \<open>validity\<close>

text \<open>
  Decimal rendering of an integer, as \<open>strconv.FormatInt(n, 10)\<close> and the verb \<open>%d\<close>
  produce it.
\<close>

definition digitChar :: "int \<Rightarrow> char" where
  "digitChar d = ''0123456789'' ! nat d"

function formatDigits :: "int \<Rightarrow> string" where
  "formatDigits n =
     (if n < 10 then [digitChar n] else formatDigits (n div 10) @ [digitChar (n mod 10)])"
  by pat_completeness auto
termination
  by (relation "measure nat") auto

declare formatDigits.simps [simp del]

definition FormatInt :: "int \<Rightarrow> string" where
  "FormatInt n = (if n < 0 then CHR ''-'' # formatDigits (- n) else formatDigits n)"

text \<open>
  Modelled from the spec: \<open>validity.AppendExtDotLastModified\<close>,
  \<open>validity.AppendExtDotExchangeDate\<close> and their \<open>Apply\<close> are not among the sources
  (their test is). Section 4.1:
  \<^item> \<open>append_ext_dot_last_modified(ext)\<close>: validity URL = \<open>strip_query(physical_url)\<close> +
    \<open>ext\<close> + \<open>.\<close> + \<open>unix_seconds(Last-Modified)\<close>; if \<open>Last-Modified\<close> is absent or
    unparseable, fall back to \<open>unix_seconds(valid_period.date)\<close>;
  \<^item> \<open>append_ext_dot_exchange_date(ext)\<close>: validity URL = \<open>strip_query(physical_url)\<close> +
    \<open>ext\<close> + \<open>.\<close> + \<open>unix_seconds(valid_period.date)\<close>.

  A physical URL ends with its path once the query is stripped, so the suffix is appended
  to the path. \<open>ParseTime\<close>, the standard library's \<open>http.ParseTime\<close>, is a parameter:
  \<open>None\<close> when the header value does not parse.
\<close>

definition stripQuery :: "URL \<Rightarrow> URL" where
  "stripQuery u = u \<lparr> ForceQuery := False, RawQuery := [] \<rparr>"

definition appendToPath :: "URL \<Rightarrow> string \<Rightarrow> URL" where
  "appendToPath u suffix = u \<lparr> Path := Path u @ suffix \<rparr>"

definition toValidityURL :: "URL \<Rightarrow> string \<Rightarrow> Time \<Rightarrow> URL" where
  "toValidityURL physurl ext t =
     appendToPath (stripQuery physurl) (ext @ ''.'' @ FormatInt (Unix t))"

datatype URLRule =
    AppendExtDotLastModified string
  | AppendExtDotExchangeDate string

definition lastModified :: "(string \<Rightarrow> Time option) \<Rightarrow> Response \<Rightarrow> Time option" where
  \<comment> \<open>the parsed \<open>Last-Modified\<close> header; \<open>None\<close> when absent or unparseable\<close>
  "lastModified ParseTime resp =
     (case map_of (RespHeader resp) ''Last-Modified'' of
        None \<Rightarrow> None
      | Some vs \<Rightarrow> ParseTime (Header_Get (RespHeader resp) ''Last-Modified''))"

fun Apply :: "(string \<Rightarrow> Time option) \<Rightarrow> URLRule \<Rightarrow> URL \<Rightarrow> Response \<Rightarrow> ValidPeriod \<Rightarrow> error + URL" where
  "Apply ParseTime (AppendExtDotLastModified ext) physurl resp vp =
     (case lastModified ParseTime resp of
        Some t \<Rightarrow> Inr (toValidityURL physurl ext t)
      | None \<Rightarrow> Inr (toValidityURL physurl ext (date vp)))"
| "Apply ParseTime (AppendExtDotExchangeDate ext) physurl resp vp =
     Inr (toValidityURL physurl ext (date vp))"

definition getValidityURLRuleFromFlags :: "Flags \<Rightarrow> error + URLRule" where
  \<comment> \<open>from cmd/webpackager/flag\_packager.go\<close>
  "getValidityURLRuleFromFlags f = Inr (AppendExtDotLastModified (flagValidityExt f))"

text \<open>
  The inputs of \<open>TestAppendExtDotUnixTime\<close>. \<open>exampleParseTime\<close> gives the value of
  \<open>http.ParseTime\<close> on the two header values of the test.
\<close>

definition exampleParseTime :: "string \<Rightarrow> Time option" where
  "exampleParseTime s =
     (if s = ''Mon, 01 Jul 2019 12:34:56 GMT'' then Some (time_Unix 1561984496 0) else None)"

definition indexHtmlURL :: URL where
  "indexHtmlURL = \<lparr> Scheme = ''https'', Opaque = [], User = None, Host = ''example.com'',
     Path = ''/index.html'', RawPath = [], ForceQuery = False, RawQuery = [], Fragment = [] \<rparr>"

definition indexPhpURL :: URL where
  "indexPhpURL = \<lparr> Scheme = ''https'', Opaque = [], User = None, Host = ''example.com'',
     Path = ''/index.php'', RawPath = [], ForceQuery = False, RawQuery = ''id=42'',
     Fragment = [] \<rparr>"

definition emptyResponse :: "URL \<Rightarrow> Header \<Rightarrow> Response" where
  \<comment> \<open>\<open>exchangetest.MakeEmptyResponse(url)\<close> with its header replaced\<close>
  "emptyResponse u h = \<lparr> RequestURL = u, StatusCode = 200, RespHeader = h, Payload = [] \<rparr>"

definition testValidPeriod :: ValidPeriod where
  "testValidPeriod = NewValidPeriodWithLifetime (time_Unix 1561939200 0) (24 * Hour)"

section \<open>server: the handler of the doc endpoint\<close>

text \<open>
  \<open>strings.HasPrefix\<close> and \<open>strings.Contains\<close> on byte strings.
\<close>

fun HasPrefix :: "string \<Rightarrow> string \<Rightarrow> bool" where
  "HasPrefix s [] = True"
| "HasPrefix [] (p # ps) = False"
| "HasPrefix (c # s) (p # ps) = (c = p \<and> HasPrefix s ps)"

fun Contains :: "string \<Rightarrow> string \<Rightarrow> bool" where
  "Contains [] substr = (substr = [])"
| "Contains (c # s) substr = (HasPrefix (c # s) substr \<or> Contains s substr)"

text \<open>
  \<open>url.PathEscape\<close> of the standard library, which \<open>parseSignURL\<close> applies to the raw
  query: every byte is kept if it is an ASCII letter or digit, one of \<open>- _ . ~\<close>, or one
  of the reserved characters \<open>$ & + : = @\<close>; every other byte, the reserved
  \<open>/ ; , ?\<close> included, becomes \<open>%XX\<close> with upper-case hexadecimal digits.
\<close>

definition upperhex :: string where
  "upperhex = ''0123456789ABCDEF''"

definition isAlphanum :: "char \<Rightarrow> bool" where
  "isAlphanum c =
     (let n = (of_char c :: nat)
      in (97 \<le> n \<and> n \<le> 122) \<or> (65 \<le> n \<and> n \<le> 90) \<or> (48 \<le> n \<and> n \<le> 57))"

definition shouldEscape :: "char \<Rightarrow> bool" where
  \<comment> \<open>\<open>shouldEscape(c, encodePathSegment)\<close>\<close>
  "shouldEscape c =
     (if isAlphanum c then False
      else if c \<in> set ''-_.~'' then False
      else if c \<in> set ''$&+,/:;=?@''
        then c = CHR ''/'' \<or> c = CHR '';'' \<or> c = CHR '','' \<or> c = CHR ''?''
      else True)"

definition escapeByte :: "char \<Rightarrow> string" where
  "escapeByte c =
     [CHR ''%'', upperhex ! ((of_char c :: nat) div 16), upperhex ! ((of_char c :: nat) mod 16)]"

definition PathEscape :: "string \<Rightarrow> string" where
  "PathEscape s = concat (map (\<lambda>c. if shouldEscape c then escapeByte c else [c]) s)"

text \<open>
  \<open>parseSignURL\<close>. The standard library's \<open>url.Parse\<close> and the repository's
  \<open>urlutil.GetCleanPath\<close> (not among the sources) are the parameters \<open>Parse\<close> and
  \<open>GetCleanPath\<close>.
\<close>

definition parseSignURL :: "(string \<Rightarrow> error + URL) \<Rightarrow> (URL \<Rightarrow> string) \<Rightarrow> string \<Rightarrow> error + URL" where
  "parseSignURL Parse GetCleanPath rawurl =
     (if rawurl = [] then Inl (ErrorString ''must be non-empty'')
      else case Parse rawurl of
        Inl err \<Rightarrow> Inl err
      | Inr u \<Rightarrow>
          if Scheme u \<noteq> ''https'' then Inl (ErrorString ''must start with https://'')
          else if User u \<noteq> None then Inl (ErrorString ''must not have user:pass@'')
          else if Fragment u \<noteq> [] then Inl (ErrorString ''must not have #fragment'')
          else
            (let u = u \<lparr> Path := GetCleanPath u \<rparr>;
                 u = u \<lparr> RawQuery := PathEscape (RawQuery u) \<rparr>
             in Inr u))"

text \<open>
  An incoming \<open>http.Request\<close>, and \<open>url.Values.Get\<close>: the first value stored under the
  key, or the empty string when there is none.
\<close>

record Request =
  Method :: string
  ReqURL :: URL
  ReqHeader :: Header

definition Values_Get :: "(string \<times> string list) list \<Rightarrow> string \<Rightarrow> string" where
  "Values_Get v key = (case map_of v key of None \<Rightarrow> [] | Some [] \<Rightarrow> [] | Some (x # xs) \<Rightarrow> x)"

definition mimeTypeExchange :: string where
  "mimeTypeExchange = ''application/signed-exchange''"

definition verifyAcceptHeader :: "Request \<Rightarrow> error option" where
  "verifyAcceptHeader req =
     (if list_ex (\<lambda>v. Contains v mimeTypeExchange)
           (case map_of (ReqHeader req) ''Accept'' of None \<Rightarrow> [] | Some vs \<Rightarrow> vs)
      then None
      else Some (ErrorString (''Accept header missing '' @ [CHR 0x22] @ mimeTypeExchange @ [CHR 0x22])))"

text \<open>
  \<open>filterError\<close>. \<open>errs\<close> starts as a nil \<open>*multierror.Error\<close> (\<open>None\<close>) and is
  allocated by the first \<open>multierror.Append\<close>; reading \<open>errs.Errors\<close> while it is still
  nil is a nil dereference, the outcome \<open>Panic\<close>.
\<close>

datatype 'a outcome = Panic | Return 'a

fun filterError :: "error \<Rightarrow> string \<Rightarrow> error option outcome" where
  "filterError (WebpackagerError u e) url =
     Return (if u \<noteq> url then None else Some (WebpackagerError u e))"
| "filterError (MultiError es) url =
     (case fold (\<lambda>e acc.
              case acc of
                Panic \<Rightarrow> Panic
              | Return errs \<Rightarrow>
                  (case filterError e url of
                     Panic \<Rightarrow> Panic
                   | Return r \<Rightarrow>
                       Return (Some (multierror_Append
                                       (case errs of None \<Rightarrow> [] | Some l \<Rightarrow> l) r))))
            es (Return None) of
        Panic \<Rightarrow> Panic
      | Return None \<Rightarrow> Panic
      | Return (Some l) \<Rightarrow>
          if length l = 1 then Return (Some (l ! 0)) else Return (ErrorOrNil l))"
| "filterError e url = Return (Some e)"

text \<open>
  The collaborators of the handler, as parameters: the standard library's \<open>url.Parse\<close>,
  \<open>URL.String\<close>, \<open>URL.Query\<close>, \<open>http.NewRequest\<close> and \<open>xerrors.Is\<close>, and the
  repository's \<open>urlutil.GetCleanPath\<close>, \<open>Packager.RunForRequest\<close>,
  \<open>Exchange.Write\<close>, \<open>Version.MimeType\<close> and \<open>timeutil.Now\<close>, none of them among
  the sources. \<open>'r\<close> is the type of the resource \<open>RunForRequest\<close> returns.
\<close>

record 'r Env =
  url_Parse :: "string \<Rightarrow> error + URL"
  GetCleanPath :: "URL \<Rightarrow> string"
  URL_String :: "URL \<Rightarrow> string"
  URL_Query :: "URL \<Rightarrow> (string \<times> string list) list"
  http_NewRequest :: "string \<Rightarrow> string \<Rightarrow> error + Request"
  RunForRequest :: "Request \<Rightarrow> Time \<Rightarrow> 'r option \<times> error option"
  xerrors_Is :: "error \<Rightarrow> error \<Rightarrow> bool"
  Exchange_Write :: "'r \<Rightarrow> error + string"
  MimeType :: "'r \<Rightarrow> string"
  Now :: Time

record Handler =
  DocPath :: string
  SignParam :: string

text \<open>
  What a handler writes, by the helper it calls: \<open>replyError(w, status)\<close>,
  \<open>replyClientError(w, err)\<close>, \<open>replyClientErrorSilent(w)\<close>,
  \<open>replyServerError(w, err)\<close> and \<open>replyOK(w, body, contentType)\<close>; \<open>HandlerPanic\<close>
  when the handler panics.

  Modelled from the spec: the reply helpers are not among the sources. Sections 6 and 7:
  \<open>BadRequest(why)\<close> makes the handler emit 400 with \<open>why\<close>, \<open>URLMismatch\<close> a silent
  400, \<open>HTTPStatus(code)\<close> re-emits \<open>code\<close>, all other errors become 500, and success
  is 200.
\<close>

datatype Reply =
    ReplyError int
  | ReplyClientError error
  | ReplyClientErrorSilent
  | ReplyServerError error
  | ReplyOK string string
  | HandlerPanic

fun Reply_StatusCode :: "Reply \<Rightarrow> int option" where
  "Reply_StatusCode (ReplyError status) = Some status"
| "Reply_StatusCode (ReplyClientError err) = Some 400"
| "Reply_StatusCode ReplyClientErrorSilent = Some 400"
| "Reply_StatusCode (ReplyServerError err) = Some 500"
| "Reply_StatusCode (ReplyOK body contentType) = Some 200"
| "Reply_StatusCode HandlerPanic = None"

text \<open>
  \<open>handleDocImpl\<close>, in three parts: \<open>replyResource\<close> is the end of the function, from
  the test \<open>r == nil\<close> on; \<open>replyForResult\<close> is the part that follows the call of
  \<open>RunForRequest\<close>; \<open>handleDocImpl\<close> returns the reply and the list of the requests
  it has passed to \<open>Packager.RunForRequest\<close>, the only way to the upstream fetch.
\<close>

definition replyResource :: "'r Env \<Rightarrow> URL \<Rightarrow> 'r option \<Rightarrow> Reply" where
  "replyResource env u r =
     (case r of
        None \<Rightarrow> ReplyServerError (ErrorString (''no resource for '' @ URL_String env u))
      | Some res \<Rightarrow>
          (case Exchange_Write env res of
             Inl err \<Rightarrow> ReplyServerError (Errorf ''serializing exchange: %w'' err)
           | Inr body \<Rightarrow> ReplyOK body (MimeType env res)))"

definition replyForResult :: "'r Env \<Rightarrow> URL \<Rightarrow> 'r option \<times> error option \<Rightarrow> Reply" where
  "replyForResult env u res =
     (case res of
        (r, None) \<Rightarrow> replyResource env u r
      | (r, Some err0) \<Rightarrow>
          (case filterError err0 (URL_String env u) of
             Panic \<Rightarrow> HandlerPanic
           | Return (Some (HTTPStatusError code)) \<Rightarrow> ReplyError code
           | Return (Some err) \<Rightarrow>
               if xerrors_Is env err ErrURLMismatch then ReplyClientErrorSilent
               else ReplyServerError (Errorf ''Packager.RunForRequest: %w'' err)
           | Return None \<Rightarrow> replyResource env u r))"

definition handleDocImpl :: "'r Env \<Rightarrow> Request \<Rightarrow> string \<Rightarrow> Reply \<times> Request list" where
  "handleDocImpl env req signURL =
     (case verifyAcceptHeader req of
        Some err \<Rightarrow> (ReplyClientError err, [])
      | None \<Rightarrow>
          (case parseSignURL (url_Parse env) (GetCleanPath env) signURL of
             Inl err \<Rightarrow> (ReplyClientError (Errorf ''invalid sign url: %w'' err), [])
           | Inr u \<Rightarrow>
               (case http_NewRequest env ''GET'' (URL_String env u) of
                  Inl err \<Rightarrow> (ReplyServerError err, [])
                | Inr newReq \<Rightarrow>
                    (replyForResult env u (RunForRequest env newReq (Now env)), [newReq]))))"

definition handleDoc :: "'r Env \<Rightarrow> Handler \<Rightarrow> Request \<Rightarrow> Reply \<times> Request list" where
  "handleDoc env h req =
     handleDocImpl env req (Values_Get (URL_Query env (ReqURL req)) (SignParam h))"

text \<open>
  The values of \<open>time.ParseDuration\<close> on the strings used in the examples of this
  theory (every other string is treated as invalid); it instantiates the parameter
  \<open>ParseDuration\<close> there.
\<close>

definition exampleParseDuration :: DurationParser where
  "exampleParseDuration s =
     (if s = ''0'' then (0, None)
      else if s = ''12h'' then (12 * Hour, None)
      else if s = ''24h'' then (24 * Hour, None)
      else if s = ''48h'' then (48 * Hour, None)
      else if s = ''72h'' then (72 * Hour, None)
      else if s = ''168h'' then (168 * Hour, None)
      else if s = ''200h'' then (200 * Hour, None)
      else if s = ''-1h'' then (- Hour, None)
      else (0, Some (ErrorString (''time: invalid duration '' @ s))))"

text \<open>The rule that the default flags give: 12 hours for scripts, 72 hours otherwise.\<close>

definition exampleRule :: Rule where
  "exampleRule =
     PerContentType
       [(''application/javascript'', FixedLifetime (12 * Hour)),
        (''text/javascript'', FixedLifetime (12 * Hour)),
        (''application/x-javascript'', FixedLifetime (12 * Hour))]
       (FixedLifetime (72 * Hour))"

text \<open>Example responses: a script, and an HTML page.\<close>

definition exampleURL :: URL where
  "exampleURL = \<lparr> Scheme = ''https'', Opaque = [], User = None, Host = ''example.org'',
     Path = ''/hello.html'', RawPath = [], ForceQuery = False, RawQuery = [], Fragment = [] \<rparr>"

definition scriptResponse :: Response where
  "scriptResponse = \<lparr> RequestURL = exampleURL \<lparr> Path := ''/script.js'' \<rparr>, StatusCode = 200,
     RespHeader = [(''Content-Type'', [''text/javascript''])],
     Payload = ''alert(1);'' \<rparr>"

definition htmlResponse :: Response where
  "htmlResponse = \<lparr> RequestURL = exampleURL, StatusCode = 200,
     RespHeader = [(''Cache-Control'', [''public, max-age=1209600'']),
                   (''Content-Length'', [''35'']),
                   (''Content-Type'', [''text/html''])],
     Payload = ''<!doctype html><p>Hello, world!</p>'' \<rparr>"

text \<open>
  Example inputs of the handler. \<open>exampleParse\<close> gives the value of \<open>url.Parse\<close> on
  the sign URLs used below (any other string is treated as unparseable), and
  \<open>exampleGetCleanPath\<close> the value of \<open>urlutil.GetCleanPath\<close> on their paths.
\<close>

definition httpsURL :: "string \<Rightarrow> string \<Rightarrow> string \<Rightarrow> URL" where
  "httpsURL host path query = \<lparr> Scheme = ''https'', Opaque = [], User = None, Host = host,
     Path = path, RawPath = [], ForceQuery = False, RawQuery = query, Fragment = [] \<rparr>"

definition exampleParse :: "string \<Rightarrow> error + URL" where
  "exampleParse s =
     (if s = ''https://example.com/a/../b?x=<1>&y=2''
        then Inr (httpsURL ''example.com'' ''/a/../b'' ''x=<1>&y=2'')
      else if s = ''http://example.com/''
        then Inr ((httpsURL ''example.com'' ''/'' []) \<lparr> Scheme := ''http'' \<rparr>)
      else if s = ''https://user:pw@example.com/''
        then Inr ((httpsURL ''example.com'' ''/'' []) \<lparr> User := Some (''user'', Some ''pw'') \<rparr>)
      else if s = ''https://example.com/#top''
        then Inr ((httpsURL ''example.com'' ''/'' []) \<lparr> Fragment := ''top'' \<rparr>)
      else Inl (ErrorString ''parse error''))"

definition exampleGetCleanPath :: "URL \<Rightarrow> string" where
  "exampleGetCleanPath u = (if Path u = ''/a/../b'' then ''/b'' else Path u)"

definition exampleEnv :: "unit Env" where
  "exampleEnv = \<lparr>
     url_Parse = exampleParse,
     GetCleanPath = exampleGetCleanPath,
     URL_String = (\<lambda>u. Scheme u @ ''://'' @ Host u @ Path u
                          @ (if RawQuery u = [] then [] else ''?'' @ RawQuery u)),
     URL_Query = (\<lambda>u. []),
     http_NewRequest = (\<lambda>method s. Inr \<lparr> Method = method,
                          ReqURL = httpsURL ''example.com'' ''/b'' [], ReqHeader = [] \<rparr>),
     RunForRequest = (\<lambda>r t. (Some (), None)),
     xerrors_Is = (\<lambda>err target. err = target),
     Exchange_Write = (\<lambda>r. Inr []),
     MimeType = (\<lambda>r. ''application/signed-exchange;v=b3''),
     Now = 0 \<rparr>"

definition exampleRequest :: Request where
  "exampleRequest = \<lparr> Method = ''GET'', ReqURL = httpsURL ''localhost'' ''/priv/doc'' [],
     ReqHeader = [(''Accept'', [''application/signed-exchange;v=b3,*/*;q=0.8''])] \<rparr>"

definition exampleHandler :: Handler where
  "exampleHandler = \<lparr> DocPath = ''/priv/doc'', SignParam = ''sign'' \<rparr>"

section \<open>Properties of the flag handling\<close>

lemma parseDuration_cases:
  "parseDuration pd s mx =
     (case snd (pd s) of
        Some err \<Rightarrow> (0, Some err)
      | None \<Rightarrow>
          if fst (pd s) \<le> 0 then (0, Some (ErrorString ''duration must be positive''))
          else if fst (pd s) > mx then (0, Some (ErrorString ''duration too large''))
          else (fst (pd s), None))"
  by (cases "pd s") (auto simp: parseDuration_def split: option.splits)

lemma parseDuration_ok_bounds:
  "parseDuration pd s mx = (v, None) \<Longrightarrow> 0 < v \<and> v \<le> mx \<and> pd s = (v, None)"
  by (cases "pd s") (auto simp: parseDuration_def split: option.splits if_splits)

text \<open>
  C8. When \<open>--validity_dir\<close> is non-empty, \<open>getResourceCacheFromFlags\<close> returns the error
  "--validity_dir is not implemented yet" and no cache; when it is empty, the function
  returns a cache configuration.
\<close>

theorem validity_dir_rejected:
  "(flagValidityDir f \<noteq> [] \<longrightarrow>
      getResourceCacheFromFlags f = Inl (ErrorString ''--validity_dir is not implemented yet''))
   \<and> (flagValidityDir f = [] \<longrightarrow> (\<exists>c. getResourceCacheFromFlags f = Inr c))"
  by (simp add: getResourceCacheFromFlags_def Let_def)

theorem validity_dir_rejected_witness:
  "getResourceCacheFromFlags (defaultFlags \<lparr> flagValidityDir := ''validity/'' \<rparr>)
     = Inl (ErrorString ''--validity_dir is not implemented yet'')
   \<and> (\<exists>c. getResourceCacheFromFlags defaultFlags = Inr c)"
  using validity_dir_rejected [of "defaultFlags \<lparr> flagValidityDir := ''validity/'' \<rparr>"]
        validity_dir_rejected [of defaultFlags]
  by (simp add: defaultFlags_def)

lemma getValidPeriodRuleFromFlags_Inr:
  assumes "getValidPeriodRuleFromFlags pd f = Inr rule"
  shows "\<exists>expiry jsExpiry.
           parseDuration pd (flagExpiry f) maxExpiry = (expiry, None)
         \<and> parseDuration pd (flagJSExpiry f)
              (if flagInsecureJSExpiry f then maxExpiry else maxGoodJSExpiry) = (jsExpiry, None)
         \<and> rule = PerContentType
                    [(''application/javascript'', FixedLifetime jsExpiry),
                     (''text/javascript'', FixedLifetime jsExpiry),
                     (''application/x-javascript'', FixedLifetime jsExpiry)]
                    (FixedLifetime expiry)"
proof -
  obtain e1 r1 where p1: "parseDuration pd (flagExpiry f) maxExpiry = (e1, r1)"
    by (cases "parseDuration pd (flagExpiry f) maxExpiry") auto
  obtain e2 r2 where p2: "parseDuration pd (flagJSExpiry f)
      (if flagInsecureJSExpiry f then maxExpiry else maxGoodJSExpiry) = (e2, r2)"
    by (cases "parseDuration pd (flagJSExpiry f)
      (if flagInsecureJSExpiry f then maxExpiry else maxGoodJSExpiry)") auto
  from assms p1 p2 show ?thesis
    by (cases r1; cases r2)
       (auto simp: getValidPeriodRuleFromFlags_def ErrorOrNil_def Let_def split: if_splits)
qed

lemma getValidPeriodRuleFromFlags_expiry_error:
  assumes "parseDuration pd (flagExpiry f) maxExpiry = (v, Some e)"
  shows "isl (getValidPeriodRuleFromFlags pd f)"
proof -
  obtain e2 r2 where p2: "parseDuration pd (flagJSExpiry f)
      (if flagInsecureJSExpiry f then maxExpiry else maxGoodJSExpiry) = (e2, r2)"
    by (cases "parseDuration pd (flagJSExpiry f)
      (if flagInsecureJSExpiry f then maxExpiry else maxGoodJSExpiry)") auto
  from assms p2 show ?thesis
    by (cases r2)
       (auto simp: getValidPeriodRuleFromFlags_def ErrorOrNil_def Let_def split: if_splits)
qed

lemma getValidPeriodRuleFromFlags_js_expiry_error:
  assumes "parseDuration pd (flagJSExpiry f)
      (if flagInsecureJSExpiry f then maxExpiry else maxGoodJSExpiry) = (v, Some e)"
  shows "isl (getValidPeriodRuleFromFlags pd f)"
proof -
  obtain e1 r1 where p1: "parseDuration pd (flagExpiry f) maxExpiry = (e1, r1)"
    by (cases "parseDuration pd (flagExpiry f) maxExpiry") auto
  from assms p1 show ?thesis
    by (cases r1)
       (auto simp: getValidPeriodRuleFromFlags_def ErrorOrNil_def Let_def split: if_splits)
qed

lemma maxExpiry_hours: "maxExpiry = 168 * Hour"
  by (simp add: maxExpiry_def)

lemma maxGoodJSExpiry_hours: "maxGoodJSExpiry = 24 * Hour"
  by (simp add: maxGoodJSExpiry_def)

lemma maxGoodJSExpiry_le_maxExpiry: "maxGoodJSExpiry \<le> maxExpiry"
  by (simp add: maxExpiry_def maxGoodJSExpiry_def Hour_def Second_def)

text \<open>
  C9. With \<open>(v, err)\<close> the result of \<open>time.ParseDuration(s)\<close>: when \<open>err\<close> is nil,
  \<open>parseDuration(s, max)\<close> returns the error "duration must be positive" if \<open>v \<le> 0\<close>,
  the error "duration too large" if \<open>v > max\<close>, and \<open>v\<close> unchanged otherwise; a parse
  error is passed on. Consequently an expiry of "0" (which \<open>time.ParseDuration\<close> reads as
  the duration 0, within the maximum) is rejected by \<open>parseDuration\<close> and makes
  \<open>getValidPeriodRuleFromFlags\<close> fail.
\<close>

theorem parseDuration_positive_bounded:
  "(\<forall>v. pd s = (v, None) \<longrightarrow>
      parseDuration pd s mx =
        (if v \<le> 0 then (0, Some (ErrorString ''duration must be positive''))
         else if mx < v then (0, Some (ErrorString ''duration too large''))
         else (v, None)))
   \<and> (\<forall>v err. pd s = (v, Some err) \<longrightarrow> parseDuration pd s mx = (0, Some err))
   \<and> (pd ''0'' = (0, None) \<longrightarrow>
        0 \<le> maxExpiry
        \<and> parseDuration pd ''0'' maxExpiry = (0, Some (ErrorString ''duration must be positive''))
        \<and> isl (getValidPeriodRuleFromFlags pd (f \<lparr> flagExpiry := ''0'' \<rparr>)))"
proof (intro conjI allI impI)
  fix v assume "pd s = (v, None)"
  then show "parseDuration pd s mx =
        (if v \<le> 0 then (0, Some (ErrorString ''duration must be positive''))
         else if mx < v then (0, Some (ErrorString ''duration too large''))
         else (v, None))"
    by (simp add: parseDuration_def)
next
  fix v err assume "pd s = (v, Some err)"
  then show "parseDuration pd s mx = (0, Some err)"
    by (simp add: parseDuration_def)
next
  show "0 \<le> maxExpiry"
    by (simp add: maxExpiry_def Hour_def Second_def)
next
  assume z: "pd ''0'' = (0, None)"
  then show p: "parseDuration pd ''0'' maxExpiry = (0, Some (ErrorString ''duration must be positive''))"
    by (simp add: parseDuration_def)
  then have "parseDuration pd (flagExpiry (f \<lparr> flagExpiry := ''0'' \<rparr>)) maxExpiry
               = (0, Some (ErrorString ''duration must be positive''))"
    by simp
  then show "isl (getValidPeriodRuleFromFlags pd (f \<lparr> flagExpiry := ''0'' \<rparr>))"
    by (rule getValidPeriodRuleFromFlags_expiry_error)
qed

theorem parseDuration_positive_bounded_witness:
  "parseDuration exampleParseDuration ''0'' maxExpiry
     = (0, Some (ErrorString ''duration must be positive''))
   \<and> parseDuration exampleParseDuration ''-1h'' maxExpiry
     = (0, Some (ErrorString ''duration must be positive''))
   \<and> parseDuration exampleParseDuration ''200h'' maxExpiry
     = (0, Some (ErrorString ''duration too large''))
   \<and> parseDuration exampleParseDuration ''72h'' maxExpiry = (72 * Hour, None)
   \<and> parseDuration exampleParseDuration ''soon'' maxExpiry
     = (0, Some (ErrorString ''time: invalid duration soon''))
   \<and> isl (getValidPeriodRuleFromFlags exampleParseDuration (defaultFlags \<lparr> flagExpiry := ''0'' \<rparr>))"
  using parseDuration_positive_bounded [of exampleParseDuration "''0''" maxExpiry defaultFlags]
        parseDuration_positive_bounded [of exampleParseDuration "''-1h''" maxExpiry defaultFlags]
        parseDuration_positive_bounded [of exampleParseDuration "''200h''" maxExpiry defaultFlags]
        parseDuration_positive_bounded [of exampleParseDuration "''72h''" maxExpiry defaultFlags]
        parseDuration_positive_bounded [of exampleParseDuration "''soon''" maxExpiry defaultFlags]
  by (simp add: exampleParseDuration_def maxExpiry_def Hour_def Second_def)

lemma Rule_Get_flags_rule:
  "Rule_Get (PerContentType
               [(''application/javascript'', FixedLifetime js),
                (''text/javascript'', FixedLifetime js),
                (''application/x-javascript'', FixedLifetime js)]
               (FixedLifetime ex)) ctype t
   = NewValidPeriodWithLifetime t
       (if ctype \<in> {''application/javascript'', ''text/javascript'', ''application/x-javascript''}
        then js else ex)"
  by simp

lemma dispatchType_isJavaScript:
  "isJavaScript mt inl resp \<longleftrightarrow>
     dispatchType mt inl resp
       \<in> {''application/javascript'', ''text/javascript'', ''application/x-javascript''}"
  by (auto simp: isJavaScript_def dispatchType_def Let_def)

lemma lifetime_of_flags_rule:
  assumes "getValidPeriodRuleFromFlags pd f = Inr rule"
  shows "\<exists>expiry jsExpiry.
           0 < expiry \<and> expiry \<le> maxExpiry
         \<and> 0 < jsExpiry
         \<and> jsExpiry \<le> (if flagInsecureJSExpiry f then maxExpiry else maxGoodJSExpiry)
         \<and> (\<forall>resp t. Get mt inl rule resp t
               = NewValidPeriodWithLifetime t
                   (if isJavaScript mt inl resp then jsExpiry else expiry))"
proof -
  from getValidPeriodRuleFromFlags_Inr [OF assms]
  obtain expiry jsExpiry where
    e: "parseDuration pd (flagExpiry f) maxExpiry = (expiry, None)" and
    j: "parseDuration pd (flagJSExpiry f)
          (if flagInsecureJSExpiry f then maxExpiry else maxGoodJSExpiry) = (jsExpiry, None)" and
    r: "rule = PerContentType
                 [(''application/javascript'', FixedLifetime jsExpiry),
                  (''text/javascript'', FixedLifetime jsExpiry),
                  (''application/x-javascript'', FixedLifetime jsExpiry)]
                 (FixedLifetime expiry)"
    by blast
  have g: "Get mt inl rule resp t
             = NewValidPeriodWithLifetime t
                 (if isJavaScript mt inl resp then jsExpiry else expiry)" for resp t
    unfolding Get_def r Rule_Get_flags_rule dispatchType_isJavaScript ..
  from parseDuration_ok_bounds [OF e] parseDuration_ok_bounds [OF j] g
  show ?thesis by blast
qed

text \<open>
  C2. Whenever \<open>getValidPeriodRuleFromFlags\<close> returns a rule, the valid period that
  rule gives to any response at any date has \<open>expires - date \<le> 168h\<close>; for a response
  typed as JavaScript (media type \<open>application/javascript\<close>, \<open>text/javascript\<close> or
  \<open>application/x-javascript\<close>, or HTML with inline scripts) it has
  \<open>expires - date \<le> 24h\<close>, or \<open>\<le> 168h\<close> when \<open>--insecure_js_expiry\<close> is set.
  A parsed \<open>--expiry\<close> above 168h, or a parsed \<open>--js_expiry\<close> above the applicable cap,
  makes \<open>getValidPeriodRuleFromFlags\<close> return an error.
\<close>

theorem js_expiry_cap:
  "(\<forall>rule. getValidPeriodRuleFromFlags pd f = Inr rule \<longrightarrow>
      (\<forall>resp t.
          expires (Get mt inl rule resp t) - date (Get mt inl rule resp t) \<le> 168 * Hour
        \<and> (isJavaScript mt inl resp \<longrightarrow>
             expires (Get mt inl rule resp t) - date (Get mt inl rule resp t)
               \<le> (if flagInsecureJSExpiry f then 168 * Hour else 24 * Hour))))
   \<and> (\<forall>v. pd (flagExpiry f) = (v, None) \<and> 168 * Hour < v \<longrightarrow>
          isl (getValidPeriodRuleFromFlags pd f))
   \<and> (\<forall>v. pd (flagJSExpiry f) = (v, None)
          \<and> (if flagInsecureJSExpiry f then 168 * Hour else 24 * Hour) < v \<longrightarrow>
          isl (getValidPeriodRuleFromFlags pd f))"
proof (intro conjI allI impI)
  fix rule resp t
  assume ok: "getValidPeriodRuleFromFlags pd f = Inr rule"
  from lifetime_of_flags_rule [OF ok, of mt inl]
  obtain expiry jsExpiry where
    b: "expiry \<le> maxExpiry"
       "jsExpiry \<le> (if flagInsecureJSExpiry f then maxExpiry else maxGoodJSExpiry)" and
    g: "Get mt inl rule resp t
          = NewValidPeriodWithLifetime t (if isJavaScript mt inl resp then jsExpiry else expiry)"
    by blast
  from b have j: "jsExpiry \<le> maxExpiry"
    using maxGoodJSExpiry_le_maxExpiry by (auto split: if_splits)
  from b(1) j show "expires (Get mt inl rule resp t) - date (Get mt inl rule resp t) \<le> 168 * Hour"
    by (simp add: g NewValidPeriodWithLifetime_def maxExpiry_hours)
  assume "isJavaScript mt inl resp"
  with b(2) show "expires (Get mt inl rule resp t) - date (Get mt inl rule resp t)
               \<le> (if flagInsecureJSExpiry f then 168 * Hour else 24 * Hour)"
    by (auto simp: g NewValidPeriodWithLifetime_def maxExpiry_hours maxGoodJSExpiry_hours
             split: if_splits)
next
  fix v assume "pd (flagExpiry f) = (v, None) \<and> 168 * Hour < v"
  then have "parseDuration pd (flagExpiry f) maxExpiry = (0, Some (ErrorString ''duration too large''))"
    by (auto simp: parseDuration_def maxExpiry_hours Hour_def Second_def)
  then show "isl (getValidPeriodRuleFromFlags pd f)"
    by (rule getValidPeriodRuleFromFlags_expiry_error)
next
  fix v assume "pd (flagJSExpiry f) = (v, None)
          \<and> (if flagInsecureJSExpiry f then 168 * Hour else 24 * Hour) < v"
  then have "parseDuration pd (flagJSExpiry f)
               (if flagInsecureJSExpiry f then maxExpiry else maxGoodJSExpiry)
             = (0, Some (ErrorString ''duration too large''))"
    by (auto simp: parseDuration_def maxExpiry_hours maxGoodJSExpiry_hours Hour_def Second_def
             split: if_splits)
  then show "isl (getValidPeriodRuleFromFlags pd f)"
    by (rule getValidPeriodRuleFromFlags_js_expiry_error)
qed

theorem js_expiry_cap_witness:
  "getValidPeriodRuleFromFlags exampleParseDuration defaultFlags = Inr exampleRule
   \<and> isJavaScript id (\<lambda>r. False) scriptResponse
   \<and> expires (Get id (\<lambda>r. False) exampleRule scriptResponse 0)
         - date (Get id (\<lambda>r. False) exampleRule scriptResponse 0) \<le> 24 * Hour
   \<and> expires (Get id (\<lambda>r. False) exampleRule htmlResponse 0)
         - date (Get id (\<lambda>r. False) exampleRule htmlResponse 0) \<le> 168 * Hour
   \<and> isl (getValidPeriodRuleFromFlags exampleParseDuration
             (defaultFlags \<lparr> flagExpiry := ''200h'' \<rparr>))
   \<and> isl (getValidPeriodRuleFromFlags exampleParseDuration
             (defaultFlags \<lparr> flagJSExpiry := ''48h'' \<rparr>))"
proof -
  have r: "getValidPeriodRuleFromFlags exampleParseDuration defaultFlags = Inr exampleRule"
    by (simp add: getValidPeriodRuleFromFlags_def parseDuration_def exampleParseDuration_def
                  defaultFlags_def ErrorOrNil_def maxExpiry_def maxGoodJSExpiry_def
                  Hour_def Second_def exampleRule_def)
  have j: "isJavaScript id (\<lambda>r. False) scriptResponse"
    by (simp add: isJavaScript_def scriptResponse_def Header_Get_def)
  have e: "exampleParseDuration (flagExpiry (defaultFlags \<lparr> flagExpiry := ''200h'' \<rparr>))
             = (200 * Hour, None) \<and> 168 * Hour < 200 * Hour"
    by (simp add: exampleParseDuration_def Hour_def Second_def)
  have q: "exampleParseDuration (flagJSExpiry (defaultFlags \<lparr> flagJSExpiry := ''48h'' \<rparr>))
             = (48 * Hour, None)
           \<and> (if flagInsecureJSExpiry (defaultFlags \<lparr> flagJSExpiry := ''48h'' \<rparr>)
               then 168 * Hour else 24 * Hour) < 48 * Hour"
    by (simp add: exampleParseDuration_def defaultFlags_def Hour_def Second_def)
  show ?thesis
    using r j e q
      js_expiry_cap [of exampleParseDuration defaultFlags id "\<lambda>r. False"]
      js_expiry_cap [of exampleParseDuration "defaultFlags \<lparr> flagExpiry := ''200h'' \<rparr>"
                        id "\<lambda>r. False"]
      js_expiry_cap [of exampleParseDuration "defaultFlags \<lparr> flagJSExpiry := ''48h'' \<rparr>"
                        id "\<lambda>r. False"]
    by (simp add: defaultFlags_def)
qed

section \<open>Properties of the processors\<close>

text \<open>
  C3. For every response and every allow-set of status codes, the status filter fails
  with \<open>HTTPStatusError(code)\<close>, \<open>code\<close> being the response's status, if and only if
  that status is not in the allow-set; when it is in the set the filter succeeds, and the
  response is left unchanged.
\<close>

theorem HTTPStatusCode_filter:
  "(fst (HTTPStatusCode goodCodes resp) = Some (HTTPStatusError (StatusCode resp))
      \<longleftrightarrow> StatusCode resp \<notin> set goodCodes)
   \<and> (fst (HTTPStatusCode goodCodes resp) \<noteq> None \<longleftrightarrow> StatusCode resp \<notin> set goodCodes)
   \<and> (StatusCode resp \<in> set goodCodes \<longrightarrow> HTTPStatusCode goodCodes resp = (None, resp))"
  by (simp add: HTTPStatusCode_def)

theorem HTTPStatusCode_filter_witness:
  "HTTPStatusCode [200, 204] htmlResponse = (None, htmlResponse)
   \<and> HTTPStatusCode [200, 204] (htmlResponse \<lparr> StatusCode := 204 \<rparr>)
       = (None, htmlResponse \<lparr> StatusCode := 204 \<rparr>)
   \<and> fst (HTTPStatusCode [200] (htmlResponse \<lparr> StatusCode := 204 \<rparr>))
       = Some (HTTPStatusError 204)
   \<and> fst (HTTPStatusCode [200, 204] (htmlResponse \<lparr> StatusCode := 404 \<rparr>))
       = Some (HTTPStatusError 404)"
  using HTTPStatusCode_filter [of "[200, 204]" htmlResponse]
        HTTPStatusCode_filter [of "[200, 204]" "htmlResponse \<lparr> StatusCode := 204 \<rparr>"]
        HTTPStatusCode_filter [of "[200]" "htmlResponse \<lparr> StatusCode := 204 \<rparr>"]
        HTTPStatusCode_filter [of "[200, 204]" "htmlResponse \<lparr> StatusCode := 404 \<rparr>"]
  by (simp add: htmlResponse_def)

lemma runTasks_success_ran:
  "runTasks i tasks w = (None, w', rn) \<Longrightarrow> rn = [i ..< i + length tasks]"
proof (induction tasks arbitrary: i w rn)
  case Nil
  then show ?case by simp
next
  case (Cons task tasks)
  obtain r w1 where t: "task w = (r, w1)"
    by (cases "task w") auto
  show ?case
  proof (cases r)
    case None
    obtain r2 w2 rn' where rest: "runTasks (Suc i) tasks w1 = (r2, w2, rn')"
      by (cases "runTasks (Suc i) tasks w1") auto
    from Cons.prems t None rest have "r2 = None" "w2 = w'" "rn = i # rn'"
      by auto
    with rest Cons.IH [of "Suc i" w1 rn'] have "rn = i # [Suc i ..< Suc i + length tasks]"
      by simp
    then show ?thesis
      by (simp add: upt_rec)
  next
    case (Some e)
    with Cons.prems t show ?thesis by simp
  qed
qed

text \<open>
  C4. With the document parsed, for every task list \<open>[T1, T2, T3]\<close>: if \<open>T1\<close> succeeds
  and \<open>T2\<close> then fails with \<open>err\<close>, \<open>Process\<close> returns exactly \<open>err\<close>, the state is the
  one \<open>T2\<close> left (whatever \<open>T3\<close> is), and the tasks run are the first and the second, in
  that order; if all three succeed in turn, \<open>Process\<close> succeeds having run them once each
  in declared order. For a task list of any length, a successful \<open>Process\<close> has run
  every task exactly once, in declared order.
\<close>

theorem HTMLProcessor_order_short_circuit:
  "NewHTMLResponse w0 = (None, w) \<longrightarrow>
     (T1 w = (None, w1) \<and> T2 w1 = (Some err, w2) \<longrightarrow>
        HTMLProcessor_Process NewHTMLResponse [T1, T2, T3] w0 = (Some err, w2, [0, 1]))
   \<and> (T1 w = (None, w1) \<and> T2 w1 = (None, w2) \<and> T3 w2 = (None, w3) \<longrightarrow>
        HTMLProcessor_Process NewHTMLResponse [T1, T2, T3] w0 = (None, w3, [0, 1, 2]))
   \<and> (\<forall>w' rn. HTMLProcessor_Process NewHTMLResponse tasks w0 = (None, w', rn) \<longrightarrow>
        rn = [0 ..< length tasks])"
proof (intro impI conjI allI)
  assume p: "NewHTMLResponse w0 = (None, w)"
  {
    assume "T1 w = (None, w1) \<and> T2 w1 = (Some err, w2)"
    with p show "HTMLProcessor_Process NewHTMLResponse [T1, T2, T3] w0 = (Some err, w2, [0, 1])"
      by (simp add: HTMLProcessor_Process_def)
  next
    assume "T1 w = (None, w1) \<and> T2 w1 = (None, w2) \<and> T3 w2 = (None, w3)"
    with p show "HTMLProcessor_Process NewHTMLResponse [T1, T2, T3] w0 = (None, w3, [0, 1, 2])"
      by (simp add: HTMLProcessor_Process_def)
  next
    fix w' rn
    assume "HTMLProcessor_Process NewHTMLResponse tasks w0 = (None, w', rn)"
    with p have "runTasks 0 tasks w = (None, w', rn)"
      by (simp add: HTMLProcessor_Process_def)
    from runTasks_success_ran [OF this] show "rn = [0 ..< length tasks]"
      by simp
  }
qed

theorem HTMLProcessor_order_short_circuit_witness:
  "HTMLProcessor_Process (\<lambda>w. (None, w))
     [AsHTMLTask ''Task1;'' None, AsHTMLTask ''Task2;'' (Some errDummy), AsHTMLTask ''Task3;'' None]
     [] = (Some errDummy, ''Task1;Task2;'', [0, 1])
   \<and> HTMLProcessor_Process (\<lambda>w. (None, w))
     [AsHTMLTask ''Task1;'' None, AsHTMLTask ''Task2;'' None, AsHTMLTask ''Task3;'' None]
     [] = (None, ''Task1;Task2;Task3;'', [0, 1, 2])"
  using HTMLProcessor_order_short_circuit
          [of "\<lambda>w. (None, w)" "[]" "[]" "AsHTMLTask ''Task1;'' None" "''Task1;''"
              "AsHTMLTask ''Task2;'' (Some errDummy)" errDummy "''Task1;Task2;''"
              "AsHTMLTask ''Task3;'' None" "''Task1;Task2;Task3;''" "[]"]
        HTMLProcessor_order_short_circuit
          [of "\<lambda>w. (None, w)" "[]" "[]" "AsHTMLTask ''Task1;'' None" "''Task1;''"
              "AsHTMLTask ''Task2;'' None" errDummy "''Task1;Task2;''"
              "AsHTMLTask ''Task3;'' None" "''Task1;Task2;Task3;''" "[]"]
  by (simp add: AsHTMLTask_def)

section \<open>Properties of the validity URL rules\<close>

lemma toValidityURL_record:
  "toValidityURL physurl ext t
     = physurl \<lparr> Path := Path physurl @ ext @ ''.'' @ FormatInt (Unix t),
                 ForceQuery := False, RawQuery := [] \<rparr>"
  by (simp add: toValidityURL_def appendToPath_def stripQuery_def)

lemma lastModified_parseable:
  "map_of (RespHeader resp) ''Last-Modified'' = Some (v # vs) \<Longrightarrow> ParseTime v = Some t
     \<Longrightarrow> lastModified ParseTime resp = Some t"
  by (simp add: lastModified_def Header_Get_def)

lemma lastModified_fallback:
  "map_of (RespHeader resp) ''Last-Modified'' = None
     \<or> ParseTime (Header_Get (RespHeader resp) ''Last-Modified'') = None
   \<Longrightarrow> lastModified ParseTime resp = None"
  by (auto simp: lastModified_def split: option.splits)

lemma formatDigits_lt10: "n < 10 \<Longrightarrow> formatDigits n = [digitChar n]"
  by (simp add: formatDigits.simps)

lemma formatDigits_ge10:
  "10 \<le> n \<Longrightarrow> formatDigits n = formatDigits (n div 10) @ [digitChar (n mod 10)]"
  by (subst formatDigits.simps) simp

lemma FormatInt_1561984496: "FormatInt (Unix (time_Unix 1561984496 0)) = ''1561984496''"
  by (simp add: FormatInt_def Unix_def time_Unix_def Second_def
                formatDigits_lt10 formatDigits_ge10 digitChar_def)

lemma FormatInt_1561939200: "FormatInt (Unix (date testValidPeriod)) = ''1561939200''"
  by (simp add: testValidPeriod_def NewValidPeriodWithLifetime_def FormatInt_def Unix_def
                time_Unix_def Second_def formatDigits_lt10 formatDigits_ge10 digitChar_def)

text \<open>
  C5. For every physical URL and every response whose \<open>Last-Modified\<close> header parses to
  the time \<open>t\<close>, the rule \<open>AppendExtDotLastModified(ext)\<close> returns the physical URL
  with its query removed and with \<open>ext\<close>, a dot and the decimal Unix seconds of \<open>t\<close>
  appended to the path. Whatever the rule and the response, the returned URL has no query.
\<close>

theorem AppendExtDotLastModified_url:
  "(map_of (RespHeader resp) ''Last-Modified'' = Some (v # vs) \<and> ParseTime v = Some t \<longrightarrow>
      Apply ParseTime (AppendExtDotLastModified ext) physurl resp vp
        = Inr (physurl \<lparr> Path := Path physurl @ ext @ ''.'' @ FormatInt (Unix t),
                          ForceQuery := False, RawQuery := [] \<rparr>))
   \<and> (\<exists>u. Apply ParseTime rule physurl resp vp = Inr u \<and> RawQuery u = [] \<and> \<not> ForceQuery u)"
proof (intro conjI impI)
  assume "map_of (RespHeader resp) ''Last-Modified'' = Some (v # vs) \<and> ParseTime v = Some t"
  then have "lastModified ParseTime resp = Some t"
    by (simp add: lastModified_parseable)
  then show "Apply ParseTime (AppendExtDotLastModified ext) physurl resp vp
        = Inr (physurl \<lparr> Path := Path physurl @ ext @ ''.'' @ FormatInt (Unix t),
                          ForceQuery := False, RawQuery := [] \<rparr>)"
    by (simp add: toValidityURL_record)
next
  show "\<exists>u. Apply ParseTime rule physurl resp vp = Inr u \<and> RawQuery u = [] \<and> \<not> ForceQuery u"
    by (cases rule) (auto simp: toValidityURL_record split: option.splits)
qed

theorem AppendExtDotLastModified_url_witness:
  "Apply exampleParseTime (AppendExtDotLastModified ''.validity'') indexHtmlURL
     (emptyResponse indexHtmlURL
        [(''Last-Modified'', [''Mon, 01 Jul 2019 12:34:56 GMT'']),
         (''Content-Type'', [''text/html; charset=utf-8''])])
     testValidPeriod
   = Inr (indexHtmlURL \<lparr> Path := ''/index.html.validity.1561984496'' \<rparr>)
   \<and> Apply exampleParseTime (AppendExtDotLastModified ''.validity'') indexPhpURL
     (emptyResponse indexPhpURL
        [(''Last-Modified'', [''Mon, 01 Jul 2019 12:34:56 GMT'']),
         (''Content-Type'', [''text/html; charset=utf-8''])])
     testValidPeriod
   = Inr (indexPhpURL \<lparr> Path := ''/index.php.validity.1561984496'', RawQuery := [] \<rparr>)"
proof -
  let ?h = "[(''Last-Modified'', [''Mon, 01 Jul 2019 12:34:56 GMT'']),
             (''Content-Type'', [''text/html; charset=utf-8''])]"
  have h: "map_of (RespHeader (emptyResponse u ?h)) ''Last-Modified''
             = Some (''Mon, 01 Jul 2019 12:34:56 GMT'' # [])
           \<and> exampleParseTime ''Mon, 01 Jul 2019 12:34:56 GMT''
             = Some (time_Unix 1561984496 0)" for u
    by (simp add: emptyResponse_def exampleParseTime_def)
  have a: "Apply exampleParseTime (AppendExtDotLastModified ''.validity'') physurl
             (emptyResponse physurl ?h) testValidPeriod
           = Inr (physurl \<lparr> Path := Path physurl @ ''.validity'' @ ''.'' @ ''1561984496'',
                             ForceQuery := False, RawQuery := [] \<rparr>)" for physurl
    using h [of physurl] AppendExtDotLastModified_url
        [of "emptyResponse physurl ?h" "''Mon, 01 Jul 2019 12:34:56 GMT''" "[]"
            exampleParseTime "time_Unix 1561984496 0" "''.validity''" physurl
            testValidPeriod "AppendExtDotLastModified ''.validity''"]
    unfolding FormatInt_1561984496 by blast
  show ?thesis
    unfolding a by (simp add: indexHtmlURL_def indexPhpURL_def)
qed

text \<open>
  C6. For every physical URL, response and valid period: if the response has no
  \<open>Last-Modified\<close> header, or its value does not parse, then
  \<open>AppendExtDotLastModified(ext)\<close> returns exactly what \<open>AppendExtDotExchangeDate(ext)\<close>
  returns, namely the physical URL with its query removed and with \<open>ext\<close>, a dot and the
  decimal Unix seconds of the valid period's date appended to the path.
\<close>

theorem AppendExtDotLastModified_fallback:
  "map_of (RespHeader resp) ''Last-Modified'' = None
     \<or> ParseTime (Header_Get (RespHeader resp) ''Last-Modified'') = None
   \<longrightarrow>
     Apply ParseTime (AppendExtDotLastModified ext) physurl resp vp
       = Apply ParseTime (AppendExtDotExchangeDate ext) physurl resp vp
   \<and> Apply ParseTime (AppendExtDotLastModified ext) physurl resp vp
       = Inr (physurl \<lparr> Path := Path physurl @ ext @ ''.'' @ FormatInt (Unix (date vp)),
                         ForceQuery := False, RawQuery := [] \<rparr>)"
proof
  assume "map_of (RespHeader resp) ''Last-Modified'' = None
     \<or> ParseTime (Header_Get (RespHeader resp) ''Last-Modified'') = None"
  then have "lastModified ParseTime resp = None"
    by (rule lastModified_fallback)
  then show "Apply ParseTime (AppendExtDotLastModified ext) physurl resp vp
       = Apply ParseTime (AppendExtDotExchangeDate ext) physurl resp vp
   \<and> Apply ParseTime (AppendExtDotLastModified ext) physurl resp vp
       = Inr (physurl \<lparr> Path := Path physurl @ ext @ ''.'' @ FormatInt (Unix (date vp)),
                         ForceQuery := False, RawQuery := [] \<rparr>)"
    by (simp add: toValidityURL_record)
qed

theorem AppendExtDotLastModified_fallback_witness:
  "Apply exampleParseTime (AppendExtDotLastModified ''.validity'') indexHtmlURL
     (emptyResponse indexHtmlURL [(''Content-Type'', [''text/html; charset=utf-8''])])
     testValidPeriod
   = Inr (indexHtmlURL \<lparr> Path := ''/index.html.validity.1561939200'' \<rparr>)
   \<and> Apply exampleParseTime (AppendExtDotLastModified ''.validity'') indexHtmlURL
     (emptyResponse indexHtmlURL
        [(''Last-Modified'', [''COMPLETELY_BROKEN_DATE_STRING'']),
         (''Content-Type'', [''text/html; charset=utf-8''])])
     testValidPeriod
   = Inr (indexHtmlURL \<lparr> Path := ''/index.html.validity.1561939200'' \<rparr>)
   \<and> Apply exampleParseTime (AppendExtDotExchangeDate ''.validity'') indexHtmlURL
     (emptyResponse indexHtmlURL
        [(''Last-Modified'', [''COMPLETELY_BROKEN_DATE_STRING'']),
         (''Content-Type'', [''text/html; charset=utf-8''])])
     testValidPeriod
   = Inr (indexHtmlURL \<lparr> Path := ''/index.html.validity.1561939200'' \<rparr>)"
proof -
  let ?missing = "[(''Content-Type'', [''text/html; charset=utf-8''])]"
  let ?invalid = "[(''Last-Modified'', [''COMPLETELY_BROKEN_DATE_STRING'']),
                   (''Content-Type'', [''text/html; charset=utf-8''])]"
  have m: "map_of (RespHeader (emptyResponse indexHtmlURL ?missing)) ''Last-Modified'' = None"
    by (simp add: emptyResponse_def)
  have i: "exampleParseTime
             (Header_Get (RespHeader (emptyResponse indexHtmlURL ?invalid)) ''Last-Modified'')
           = None"
    by (simp add: emptyResponse_def Header_Get_def exampleParseTime_def)
  have a: "Apply exampleParseTime (AppendExtDotLastModified ''.validity'') indexHtmlURL
             (emptyResponse indexHtmlURL ?missing) testValidPeriod
           = Inr (indexHtmlURL \<lparr> Path := Path indexHtmlURL @ ''.validity'' @ ''.'' @ ''1561939200'',
                                  ForceQuery := False, RawQuery := [] \<rparr>)"
    using m AppendExtDotLastModified_fallback
        [of "emptyResponse indexHtmlURL ?missing" exampleParseTime "''.validity''"
            indexHtmlURL testValidPeriod]
    unfolding FormatInt_1561939200 by blast
  have b: "Apply exampleParseTime (AppendExtDotLastModified ''.validity'') indexHtmlURL
             (emptyResponse indexHtmlURL ?invalid) testValidPeriod
           = Apply exampleParseTime (AppendExtDotExchangeDate ''.validity'') indexHtmlURL
               (emptyResponse indexHtmlURL ?invalid) testValidPeriod
         \<and> Apply exampleParseTime (AppendExtDotLastModified ''.validity'') indexHtmlURL
             (emptyResponse indexHtmlURL ?invalid) testValidPeriod
           = Inr (indexHtmlURL \<lparr> Path := Path indexHtmlURL @ ''.validity'' @ ''.'' @ ''1561939200'',
                                  ForceQuery := False, RawQuery := [] \<rparr>)"
    using i AppendExtDotLastModified_fallback
        [of "emptyResponse indexHtmlURL ?invalid" exampleParseTime "''.validity''"
            indexHtmlURL testValidPeriod]
    unfolding FormatInt_1561939200 by blast
  have c: "indexHtmlURL \<lparr> Path := Path indexHtmlURL @ ''.validity'' @ ''.'' @ ''1561939200'',
                           ForceQuery := False, RawQuery := [] \<rparr>
           = indexHtmlURL \<lparr> Path := ''/index.html.validity.1561939200'' \<rparr>"
    by (simp add: indexHtmlURL_def)
  from a b show ?thesis
    unfolding c by metis
qed

section \<open>Properties of the doc endpoint\<close>

lemma shouldEscape_iff:
  "shouldEscape c \<longleftrightarrow> \<not> (isAlphanum c \<or> c \<in> set ''-_.~$&+:=@'')"
  by (auto simp: shouldEscape_def)

lemma parseSignURL_Inr_iff:
  "parseSignURL Parse Clean rawurl = Inr u' \<longleftrightarrow>
     rawurl \<noteq> [] \<and>
     (\<exists>u. Parse rawurl = Inr u \<and> Scheme u = ''https'' \<and> User u = None \<and> Fragment u = []
          \<and> u' = u \<lparr> Path := Clean u, RawQuery := PathEscape (RawQuery u) \<rparr>)"
  by (cases "Parse rawurl") (auto simp: parseSignURL_def Let_def simp del: not_None_eq)

lemma handleDocImpl_bad_sign_url:
  "parseSignURL (url_Parse env) (GetCleanPath env) signURL = Inl e \<Longrightarrow>
     handleDocImpl env req signURL =
       (case verifyAcceptHeader req of
          Some err \<Rightarrow> (ReplyClientError err, [])
        | None \<Rightarrow> (ReplyClientError (Errorf ''invalid sign url: %w'' e), []))"
  by (simp add: handleDocImpl_def split: option.splits)

lemma parseSignURL_empty:
  "parseSignURL Parse Clean [] = Inl (ErrorString ''must be non-empty'')"
  by (simp add: parseSignURL_def)

text \<open>
  C7. \<open>parseSignURL\<close> succeeds if and only if the string is non-empty and \<open>url.Parse\<close>
  accepts it with the scheme \<open>https\<close> (so the URL is absolute), no userinfo and no
  fragment. On success the returned URL is the parsed one with its path replaced by
  \<open>GetCleanPath\<close> of it and its raw query replaced by \<open>url.PathEscape\<close> of it, which
  keeps letters, digits and \<open>- _ . ~ $ & + : = @\<close> (so \<open>&\<close> and \<open>=\<close> stay) and turns
  every other byte, such as \<open><\<close> and \<open>|\<close>, into \<open>%XX\<close>. On failure \<open>handleDocImpl\<close>
  replies with a client error, status 400, and does not call the packager.
\<close>

theorem parseSignURL_validation:
  "((\<exists>u'. parseSignURL Parse Clean rawurl = Inr u') \<longleftrightarrow>
      rawurl \<noteq> [] \<and>
      (\<exists>u. Parse rawurl = Inr u \<and> Scheme u = ''https'' \<and> User u = None \<and> Fragment u = []))
   \<and> (\<forall>u u'. Parse rawurl = Inr u \<and> parseSignURL Parse Clean rawurl = Inr u' \<longrightarrow>
         u' = u \<lparr> Path := Clean u, RawQuery := PathEscape (RawQuery u) \<rparr>)
   \<and> PathEscape q
       = concat (map (\<lambda>c. if isAlphanum c \<or> c \<in> set ''-_.~$&+:=@'' then [c] else escapeByte c) q)
   \<and> PathEscape ''&='' = ''&=''
   \<and> PathEscape ''<|'' = ''%3C%7C''
   \<and> (\<forall>e. parseSignURL (url_Parse env) (GetCleanPath env) signURL = Inl e \<longrightarrow>
         (\<exists>err. fst (handleDocImpl env req signURL) = ReplyClientError err)
         \<and> Reply_StatusCode (fst (handleDocImpl env req signURL)) = Some 400
         \<and> snd (handleDocImpl env req signURL) = [])"
proof (intro conjI allI impI)
  show "(\<exists>u'. parseSignURL Parse Clean rawurl = Inr u') \<longleftrightarrow>
      rawurl \<noteq> [] \<and>
      (\<exists>u. Parse rawurl = Inr u \<and> Scheme u = ''https'' \<and> User u = None \<and> Fragment u = [])"
    unfolding parseSignURL_Inr_iff by blast
next
  fix u u'
  assume "Parse rawurl = Inr u \<and> parseSignURL Parse Clean rawurl = Inr u'"
  then show "u' = u \<lparr> Path := Clean u, RawQuery := PathEscape (RawQuery u) \<rparr>"
    unfolding parseSignURL_Inr_iff by auto
next
  have "(\<lambda>c. if shouldEscape c then escapeByte c else [c])
          = (\<lambda>c. if isAlphanum c \<or> c \<in> set ''-_.~$&+:=@'' then [c] else escapeByte c)"
    unfolding shouldEscape_iff by auto
  then show "PathEscape q
       = concat (map (\<lambda>c. if isAlphanum c \<or> c \<in> set ''-_.~$&+:=@'' then [c] else escapeByte c) q)"
    unfolding PathEscape_def by simp
next
  show "PathEscape ''&='' = ''&=''"
    by (simp add: PathEscape_def shouldEscape_def isAlphanum_def)
next
  show "PathEscape ''<|'' = ''%3C%7C''"
    by (simp add: PathEscape_def shouldEscape_def isAlphanum_def escapeByte_def upperhex_def)
next
  fix e
  assume bad: "parseSignURL (url_Parse env) (GetCleanPath env) signURL = Inl e"
  show "\<exists>err. fst (handleDocImpl env req signURL) = ReplyClientError err"
    unfolding handleDocImpl_bad_sign_url [OF bad] by (simp split: option.splits)
  show "Reply_StatusCode (fst (handleDocImpl env req signURL)) = Some 400"
    unfolding handleDocImpl_bad_sign_url [OF bad] by (simp split: option.splits)
  show "snd (handleDocImpl env req signURL) = []"
    unfolding handleDocImpl_bad_sign_url [OF bad] by (simp split: option.splits)
qed

theorem parseSignURL_validation_witness:
  "parseSignURL exampleParse exampleGetCleanPath ''https://example.com/a/../b?x=<1>&y=2''
     = Inr (httpsURL ''example.com'' ''/b'' ''x=%3C1%3E&y=2'')
   \<and> Reply_StatusCode (fst (handleDocImpl exampleEnv exampleRequest ''http://example.com/''))
       = Some 400
   \<and> Reply_StatusCode (fst (handleDocImpl exampleEnv exampleRequest ''https://user:pw@example.com/''))
       = Some 400
   \<and> Reply_StatusCode (fst (handleDocImpl exampleEnv exampleRequest ''https://example.com/#top''))
       = Some 400
   \<and> Reply_StatusCode (fst (handleDocImpl exampleEnv exampleRequest ''::'')) = Some 400"
proof -
  let ?good = "''https://example.com/a/../b?x=<1>&y=2''"
  let ?u = "httpsURL ''example.com'' ''/a/../b'' ''x=<1>&y=2''"
  have p: "?good \<noteq> [] \<and> exampleParse ?good = Inr ?u \<and> Scheme ?u = ''https''
           \<and> User ?u = None \<and> Fragment ?u = []"
    by (simp add: exampleParse_def httpsURL_def)
  have q: "PathEscape ''x=<1>&y=2'' = ''x=%3C1%3E&y=2''"
    by (simp add: PathEscape_def shouldEscape_def isAlphanum_def escapeByte_def upperhex_def)
  have c: "?u \<lparr> Path := exampleGetCleanPath ?u, RawQuery := PathEscape (RawQuery ?u) \<rparr>
           = httpsURL ''example.com'' ''/b'' ''x=%3C1%3E&y=2''"
    by (simp add: httpsURL_def exampleGetCleanPath_def q)
  have good: "parseSignURL exampleParse exampleGetCleanPath ?good
                = Inr (httpsURL ''example.com'' ''/b'' ''x=%3C1%3E&y=2'')"
    using p parseSignURL_validation [of exampleParse exampleGetCleanPath ?good]
    unfolding c [symmetric] by blast
  have bad: "\<exists>e. parseSignURL (url_Parse exampleEnv) (GetCleanPath exampleEnv) s = Inl e"
    if "s \<in> {''http://example.com/'', ''https://user:pw@example.com/'',
              ''https://example.com/#top'', ''::''}" for s
    using that by (auto simp: parseSignURL_def exampleEnv_def exampleParse_def httpsURL_def)
  have r: "Reply_StatusCode (fst (handleDocImpl exampleEnv exampleRequest s)) = Some 400"
    if "s \<in> {''http://example.com/'', ''https://user:pw@example.com/'',
              ''https://example.com/#top'', ''::''}" for s
    using bad [OF that]
      parseSignURL_validation [of exampleParse exampleGetCleanPath ?good "[]" exampleEnv s
                                  exampleRequest]
    by blast
  from good r show ?thesis
    by simp
qed

text \<open>
  C10. \<open>parseSignURL("")\<close> fails with the error "must be non-empty". For an empty sign
  URL \<open>handleDocImpl\<close> replies with a client error, status 400 (carrying that error,
  or the error of the \<open>Accept\<close> check, which comes first), passes no request to the
  packager, and its result does not depend on the packager at all. \<open>handleDoc\<close> passes
  the empty sign URL when the sign parameter is missing from the query or has an empty
  first value, so it replies 400 without invoking the packager.
\<close>

theorem empty_sign_url_rejected:
  "parseSignURL Parse Clean [] = Inl (ErrorString ''must be non-empty'')
   \<and> fst (handleDocImpl env req [])
       = ReplyClientError
           (case verifyAcceptHeader req of
              Some err \<Rightarrow> err
            | None \<Rightarrow> Errorf ''invalid sign url: %w'' (ErrorString ''must be non-empty''))
   \<and> Reply_StatusCode (fst (handleDocImpl env req [])) = Some 400
   \<and> snd (handleDocImpl env req []) = []
   \<and> handleDocImpl (env \<lparr> RunForRequest := run \<rparr>) req [] = handleDocImpl env req []
   \<and> (map_of (URL_Query env (ReqURL req)) (SignParam h) = None
        \<or> (\<exists>vs. map_of (URL_Query env (ReqURL req)) (SignParam h) = Some ([] # vs))
      \<longrightarrow> handleDoc env h req = handleDocImpl env req []
          \<and> Reply_StatusCode (fst (handleDoc env h req)) = Some 400
          \<and> snd (handleDoc env h req) = [])"
proof -
  have e: "parseSignURL (url_Parse env') (GetCleanPath env') []
             = Inl (ErrorString ''must be non-empty'')" for env' :: "'a Env"
    by (rule parseSignURL_empty)
  have i: "handleDocImpl env' req [] =
             (ReplyClientError
               (case verifyAcceptHeader req of
                  Some err \<Rightarrow> err
                | None \<Rightarrow> Errorf ''invalid sign url: %w'' (ErrorString ''must be non-empty'')),
              [])" for env' :: "'a Env"
    unfolding handleDocImpl_bad_sign_url [OF e] by (simp split: option.splits)
  have d: "handleDoc env h req = handleDocImpl env req []"
    if "map_of (URL_Query env (ReqURL req)) (SignParam h) = None
        \<or> (\<exists>vs. map_of (URL_Query env (ReqURL req)) (SignParam h) = Some ([] # vs))"
    using that by (auto simp: handleDoc_def Values_Get_def)
  show ?thesis
    using d by (simp add: parseSignURL_empty i)
qed

theorem empty_sign_url_rejected_witness:
  "fst (handleDoc exampleEnv exampleHandler exampleRequest)
     = ReplyClientError (Errorf ''invalid sign url: %w'' (ErrorString ''must be non-empty''))
   \<and> Reply_StatusCode (fst (handleDoc exampleEnv exampleHandler exampleRequest)) = Some 400
   \<and> snd (handleDoc exampleEnv exampleHandler exampleRequest) = []
   \<and> Reply_StatusCode
        (fst (handleDoc (exampleEnv \<lparr> URL_Query := \<lambda>u. [(''sign'', [[]])] \<rparr>)
                exampleHandler exampleRequest)) = Some 400"
proof -
  have m: "map_of (URL_Query exampleEnv (ReqURL exampleRequest)) (SignParam exampleHandler) = None"
    by (simp add: exampleEnv_def)
  have v: "\<exists>vs. map_of (URL_Query (exampleEnv \<lparr> URL_Query := \<lambda>u. [(''sign'', [[]])] \<rparr>)
                          (ReqURL exampleRequest)) (SignParam exampleHandler) = Some ([] # vs)"
    by (simp add: exampleHandler_def)
  have a: "verifyAcceptHeader exampleRequest = None"
    by (simp add: verifyAcceptHeader_def exampleRequest_def mimeTypeExchange_def)
  show ?thesis
    using m v a
      empty_sign_url_rejected [of exampleParse exampleGetCleanPath exampleEnv exampleRequest
                                  "RunForRequest exampleEnv" exampleHandler]
      empty_sign_url_rejected [of exampleParse exampleGetCleanPath
                                  "exampleEnv \<lparr> URL_Query := \<lambda>u. [(''sign'', [[]])] \<rparr>"
                                  exampleRequest "RunForRequest exampleEnv" exampleHandler]
    by (simp del: map_of.simps)
qed

end
